theory Spec2Isabelle
  imports Complex_Main "HOL-Library.Word" "HOL-Library.Sublist"
begin

unbundle bit_operations_syntax

section \<open>Channel information objects of the Open Ephys GUI\<close>

text \<open>
  A shallow embedding of the channel descriptor classes implemented in the
  \<open>InfoObjects\<close> translation unit (\<open>src/unnamed/part_000\<close>) and of the event
  classes declared in \<open>Events.h\<close>.

  Conventions of the embedding.
  \<^item> A class is a record. A base-class subobject is a field of the record of the
    derived class, named after the base class, so that a copy of the base subobject is a
    copy of that field.
  \<^item> A member function that mutates \<open>this\<close> takes the object last and returns the
    updated object.
  \<^item> \<open>uint16\<close>, \<open>unsigned int\<close> and \<open>uint64\<close> are words of 16, 32 and 64 bits:
    their arithmetic wraps around as the unsigned arithmetic of C++ does. \<open>size_t\<close>
    is a word of 64 bits (the LP64 and LLP64 targets of the application).
  \<^item> A \<open>float\<close> member of a descriptor is only stored and read back, never computed
    with; it is a \<open>real\<close>, and the literals \<open>1.0f\<close> and \<open>44100\<close> are exactly
    representable in single precision.
  \<^item> A JUCE \<open>String\<close> is a \<open>string\<close>.
  \<^item> A pointer argument that the code dereferences without a test is the object it
    points to.
\<close>

type_synonym uint16 = "16 word"
type_synonym uint = "32 word"
type_synonym uint64 = "64 word"
type_synonym size_t = "64 word"

subsection \<open>The processor a channel comes from\<close>

text \<open>
  \<open>GenericProcessor\<close> is declared outside these files. The constructors below read
  three things from it: the member \<open>nodeId\<close>, \<open>getNodeId()\<close> and \<open>getName()\<close>.
  The record holds what each of the three yields, narrowed to the \<open>uint16\<close> members
  they initialise.
\<close>

record GenericProcessor =
  nodeId :: uint16
  getNodeId :: uint16
  getName :: string

subsection \<open>Common classes\<close>

record NodeInfoBase =
  m_nodeID :: uint16

definition NodeInfoBase_ctor :: "uint16 \<Rightarrow> NodeInfoBase" where
  "NodeInfoBase_ctor ident = \<lparr> m_nodeID = ident \<rparr>"

definition getCurrentNodeID :: "NodeInfoBase \<Rightarrow> uint" where
  "getCurrentNodeID this = ucast (m_nodeID this)"

record HistoryObject =
  m_historicString :: string

definition getHistoricString :: "HistoryObject \<Rightarrow> string" where
  "getHistoricString this = m_historicString this"

definition addToHistoricString :: "string \<Rightarrow> HistoryObject \<Rightarrow> HistoryObject" where
  "addToHistoricString entry this =
     (if m_historicString this = []
      then this\<lparr> m_historicString := entry \<rparr>
      else this\<lparr> m_historicString := m_historicString this @ ('' -> '' @ entry) \<rparr>)"

record SourceProcessorInfo =
  m_sourceNodeID :: uint16
  m_sourceSubNodeIndex :: uint16
  m_sourceType :: string
  m_sourceName :: string

definition SourceProcessorInfo_ctor :: "GenericProcessor \<Rightarrow> uint16 \<Rightarrow> SourceProcessorInfo" where
  "SourceProcessorInfo_ctor source subproc =
     \<lparr> m_sourceNodeID = nodeId source,
       m_sourceSubNodeIndex = subproc,
       m_sourceType = getName source,
       m_sourceName = getName source \<rparr>"

definition getSourceNodeID :: "SourceProcessorInfo \<Rightarrow> uint16" where
  "getSourceNodeID this = m_sourceNodeID this"

definition getSubProcessorIdx :: "SourceProcessorInfo \<Rightarrow> uint16" where
  "getSubProcessorIdx this = m_sourceSubNodeIndex this"

definition getSourceType :: "SourceProcessorInfo \<Rightarrow> string" where
  "getSourceType this = m_sourceType this"

definition getSourceName :: "SourceProcessorInfo \<Rightarrow> string" where
  "getSourceName this = m_sourceName this"

record NamedInfoObject =
  m_name :: string
  m_descriptor :: string
  m_description :: string

definition setName :: "string \<Rightarrow> NamedInfoObject \<Rightarrow> NamedInfoObject" where
  "setName name this = this\<lparr> m_name := name \<rparr>"

definition setDescriptor :: "string \<Rightarrow> NamedInfoObject \<Rightarrow> NamedInfoObject" where
  "setDescriptor descriptor this = this\<lparr> m_descriptor := descriptor \<rparr>"

definition setDescription :: "string \<Rightarrow> NamedInfoObject \<Rightarrow> NamedInfoObject" where
  "setDescription description this = this\<lparr> m_description := description \<rparr>"

subsection \<open>InfoObjectCommon\<close>

text \<open>
  The constructor initialises the \<open>NodeInfoBase\<close> and \<open>SourceProcessorInfo\<close>
  subobjects and the two indices. The members it does not mention (the
  \<open>NamedInfoObject\<close> subobject and \<open>m_sampleRate\<close>) keep what their declarations give
  them; the declarations are outside these files, so the constructor takes that state as
  its last argument.
\<close>

record InfoObjectCommon =
  nodeInfoBase :: NodeInfoBase
  sourceProcessorInfo :: SourceProcessorInfo
  namedInfoObject :: NamedInfoObject
  m_sourceIndex :: uint16
  m_sourceTypeIndex :: uint16
  m_sampleRate :: real

definition InfoObjectCommon_ctor ::
  "uint16 \<Rightarrow> uint16 \<Rightarrow> GenericProcessor \<Rightarrow> uint16 \<Rightarrow> InfoObjectCommon \<Rightarrow> InfoObjectCommon" where
  "InfoObjectCommon_ctor idx typeidx source subproc this =
     this\<lparr> nodeInfoBase := NodeInfoBase_ctor (getNodeId source),
           sourceProcessorInfo := SourceProcessorInfo_ctor source subproc,
           m_sourceIndex := idx,
           m_sourceTypeIndex := typeidx \<rparr>"

definition setSampleRate :: "real \<Rightarrow> InfoObjectCommon \<Rightarrow> InfoObjectCommon" where
  "setSampleRate sampleRate this = this\<lparr> m_sampleRate := sampleRate \<rparr>"

definition getSampleRate :: "InfoObjectCommon \<Rightarrow> real" where
  "getSampleRate this = m_sampleRate this"

definition getSourceIndex :: "InfoObjectCommon \<Rightarrow> uint16" where
  "getSourceIndex this = m_sourceIndex this"

definition getSourceTypeIndex :: "InfoObjectCommon \<Rightarrow> uint16" where
  "getSourceTypeIndex this = m_sourceTypeIndex this"

subsection \<open>DataChannel\<close>

text \<open>
  Modelled from the spec: the enumeration \<open>DataChannelTypes\<close> is declared outside
  these files; the spec names the kinds Headstage, Aux and ADC.
\<close>

datatype DataChannelTypes = HEADSTAGE_CHANNEL | AUX_CHANNEL | ADC_CHANNEL

text \<open>
  The \<open>MetaDataInfoObject\<close> base class is declared outside these files; its state is
  a value of a type parameter, which the copy constructor copies.
\<close>

record 'md DataChannel =
  infoObjectCommon :: InfoObjectCommon
  metaDataInfoObject :: 'md
  historyObject :: HistoryObject
  m_type :: DataChannelTypes
  m_bitVolts :: real
  m_isEnabled :: bool
  m_isMonitored :: bool
  m_isRecording :: bool

definition DataChannel_copy :: "'md DataChannel \<Rightarrow> 'md DataChannel" where
  "DataChannel_copy ch =
     \<lparr> infoObjectCommon = infoObjectCommon ch,
       metaDataInfoObject = metaDataInfoObject ch,
       historyObject = historyObject ch,
       m_type = m_type ch,
       m_bitVolts = m_bitVolts ch,
       m_isEnabled = True,
       m_isMonitored = False,
       m_isRecording = False \<rparr>"

definition setBitVolts :: "real \<Rightarrow> 'md DataChannel \<Rightarrow> 'md DataChannel" where
  "setBitVolts bitVolts this = this\<lparr> m_bitVolts := bitVolts \<rparr>"

definition getBitVolts :: "'md DataChannel \<Rightarrow> real" where
  "getBitVolts this = m_bitVolts this"

definition DataChannel_getChannelType :: "'md DataChannel \<Rightarrow> DataChannelTypes" where
  "DataChannel_getChannelType this = m_type this"

definition isEnabled :: "'md DataChannel \<Rightarrow> bool" where
  "isEnabled this = m_isEnabled this"

definition setEnable :: "bool \<Rightarrow> 'md DataChannel \<Rightarrow> 'md DataChannel" where
  "setEnable e this = this\<lparr> m_isEnabled := e \<rparr>"

definition isMonitored :: "'md DataChannel \<Rightarrow> bool" where
  "isMonitored this = m_isMonitored this"

definition setMonitored :: "bool \<Rightarrow> 'md DataChannel \<Rightarrow> 'md DataChannel" where
  "setMonitored e this = this\<lparr> m_isMonitored := e \<rparr>"

definition setRecordState :: "bool \<Rightarrow> 'md DataChannel \<Rightarrow> 'md DataChannel" where
  "setRecordState t this = this\<lparr> m_isRecording := t \<rparr>"

definition getRecordState :: "'md DataChannel \<Rightarrow> bool" where
  "getRecordState this = m_isRecording this"

definition reset :: "'md DataChannel \<Rightarrow> 'md DataChannel" where
  "reset this =
     (let this = this\<lparr> m_bitVolts := 1 \<rparr>;
          this = this\<lparr> m_isEnabled := True \<rparr>;
          this = this\<lparr> m_isMonitored := False \<rparr>;
          this = this\<lparr> m_isRecording := False \<rparr>
      in this\<lparr> infoObjectCommon := setSampleRate 44100 (infoObjectCommon this) \<rparr>)"

subsection \<open>EventChannel\<close>

text \<open>
  Modelled from the spec: the enumeration \<open>EventChannelTypes\<close> is declared outside
  these files; its kinds are TTL, Text and the eight integer array kinds, which are also
  the enumerators the code names.
\<close>

datatype EventChannelTypes =
  TTL | TEXT
  | INT8_ARRAY | UINT8_ARRAY | INT16_ARRAY | UINT16_ARRAY
  | INT32_ARRAY | UINT32_ARRAY | INT64_ARRAY | UINT64_ARRAY

record EventChannel =
  infoObjectCommon :: InfoObjectCommon
  m_type :: EventChannelTypes
  m_numChannels :: uint
  m_length :: uint
  m_dataSize :: size_t
  m_shouldBeRecorded :: bool

text \<open>\<open>sizeof\<close> of the fixed-width JUCE integer types and of \<open>char\<close>.\<close>

fun getTypeByteSize :: "EventChannelTypes \<Rightarrow> size_t" where
  "getTypeByteSize INT8_ARRAY = 1"
| "getTypeByteSize UINT8_ARRAY = 1"
| "getTypeByteSize INT16_ARRAY = 2"
| "getTypeByteSize UINT16_ARRAY = 2"
| "getTypeByteSize INT32_ARRAY = 4"
| "getTypeByteSize UINT32_ARRAY = 4"
| "getTypeByteSize INT64_ARRAY = 8"
| "getTypeByteSize UINT64_ARRAY = 8"
| "getTypeByteSize _ = 1"

definition EventChannel_getChannelType :: "EventChannel \<Rightarrow> EventChannelTypes" where
  "EventChannel_getChannelType this = EventChannel.m_type this"

definition setNumChannels :: "uint \<Rightarrow> EventChannel \<Rightarrow> EventChannel" where
  "setNumChannels numChannels this =
     (let this = this\<lparr> m_numChannels := numChannels \<rparr>
      in if EventChannel.m_type this = TTL
         then (let this = this\<lparr> m_length := (numChannels + 7) div 8 \<rparr>
               in this\<lparr> m_dataSize := ucast (m_length this) \<rparr>)
         else this)"

definition EventChannel_getNumChannels :: "EventChannel \<Rightarrow> uint" where
  "EventChannel_getNumChannels this = m_numChannels this"

definition setLength :: "uint \<Rightarrow> EventChannel \<Rightarrow> EventChannel" where
  "setLength len this =
     (if EventChannel.m_type this = TTL then this
      else (let this = this\<lparr> m_length := len \<rparr>;
                this = this\<lparr> m_dataSize := ucast len * getTypeByteSize (EventChannel.m_type this) \<rparr>
            in if EventChannel.m_type this = TEXT
               then this\<lparr> m_dataSize := m_dataSize this + 1 \<rparr>
               else this))"

definition getLength :: "EventChannel \<Rightarrow> uint" where
  "getLength this = m_length this"

definition getDataSize :: "EventChannel \<Rightarrow> size_t" where
  "getDataSize this = m_dataSize this"

definition setShouldBeRecorded :: "bool \<Rightarrow> EventChannel \<Rightarrow> EventChannel" where
  "setShouldBeRecorded status this = this\<lparr> m_shouldBeRecorded := status \<rparr>"

definition getShouldBeRecorded :: "EventChannel \<Rightarrow> bool" where
  "getShouldBeRecorded this = m_shouldBeRecorded this"

subsection \<open>SpikeChannel\<close>

text \<open>
  Modelled from the spec: the enumeration \<open>ElectrodeTypes\<close> is declared outside these
  files; its kinds are Single, Stereotrode and Tetrode, which are also the enumerators
  the code names.
\<close>

datatype ElectrodeTypes = SINGLE | STEREOTRODE | TETRODE

record sourceChannelInfo =
  processorID :: uint16
  subProcessorID :: uint16
  channelIDX :: uint16

record SpikeChannel =
  infoObjectCommon :: InfoObjectCommon
  m_type :: ElectrodeTypes
  m_sourceInfo :: "sourceChannelInfo list"
  m_gain :: real
  m_numPreSamples :: uint
  m_numPostSamples :: uint

text \<open>The static overload \<open>SpikeChannel::getNumChannels(ElectrodeTypes)\<close>.\<close>

fun getNumChannels :: "ElectrodeTypes \<Rightarrow> uint" where
  "getNumChannels SINGLE = 1"
| "getNumChannels STEREOTRODE = 2"
| "getNumChannels TETRODE = 4"

text \<open>
  The body of the \<open>for\<close> loop of the constructor: the entry of one source channel is
  added at the end of \<open>m_sourceInfo\<close>.
\<close>

definition sourceChannelInfo_of :: "'md DataChannel \<Rightarrow> sourceChannelInfo" where
  "sourceChannelInfo_of chan =
     \<lparr> processorID = getSourceNodeID (sourceProcessorInfo (DataChannel.infoObjectCommon chan)),
       subProcessorID = getSubProcessorIdx (sourceProcessorInfo (DataChannel.infoObjectCommon chan)),
       channelIDX = getSourceIndex (DataChannel.infoObjectCommon chan) \<rparr>"

primrec add_sourceInfo :: "'md DataChannel list \<Rightarrow> sourceChannelInfo list \<Rightarrow> sourceChannelInfo list" where
  "add_sourceInfo [] infos = infos"
| "add_sourceInfo (chan # rest) infos = add_sourceInfo rest (infos @ [sourceChannelInfo_of chan])"

text \<open>
  \<open>jassert\<close> is the assertion macro of JUCE. It reports a condition that does not
  hold (it writes to the log and stops in a debugger when one is attached) and then goes
  on; a release build compiles it to nothing. It does not return, throw or abort, and
  the constructor has no statement after it but the loop. The condition it states is
  \<open>SpikeChannel_ctor_jassert\<close>; the object the constructor builds does not depend on
  it.

  \<open>sourceChannels.size()\<close> is the number of entries of the array, here the length of
  the list; it is never negative, so its comparison with the \<open>unsigned int\<close> count of
  the electrode type is the comparison of the two numbers.
\<close>

definition SpikeChannel_ctor_jassert :: "ElectrodeTypes \<Rightarrow> 'md DataChannel list \<Rightarrow> bool" where
  "SpikeChannel_ctor_jassert type sourceChannels =
     (let n = length sourceChannels in n = unat (getNumChannels type))"

text \<open>
  The last argument is the state that the declarations give the members the constructor
  does not initialise.
\<close>

definition SpikeChannel_ctor ::
  "ElectrodeTypes \<Rightarrow> uint16 \<Rightarrow> uint16 \<Rightarrow> GenericProcessor \<Rightarrow> 'md DataChannel list \<Rightarrow> uint16
     \<Rightarrow> SpikeChannel \<Rightarrow> SpikeChannel" where
  "SpikeChannel_ctor type idx typeidx source sourceChannels subproc this =
     (let this = this\<lparr> SpikeChannel.infoObjectCommon :=
                        InfoObjectCommon_ctor idx typeidx source subproc (SpikeChannel.infoObjectCommon this),
                      SpikeChannel.m_type := type \<rparr>
      in this\<lparr> m_sourceInfo := add_sourceInfo sourceChannels (m_sourceInfo this) \<rparr>)"

definition SpikeChannel_getChannelType :: "SpikeChannel \<Rightarrow> ElectrodeTypes" where
  "SpikeChannel_getChannelType this = SpikeChannel.m_type this"

definition getSourceChannelInfo :: "SpikeChannel \<Rightarrow> sourceChannelInfo list" where
  "getSourceChannelInfo this = m_sourceInfo this"

definition setGain :: "real \<Rightarrow> SpikeChannel \<Rightarrow> SpikeChannel" where
  "setGain gain this = this\<lparr> m_gain := gain \<rparr>"

definition getGain :: "SpikeChannel \<Rightarrow> real" where
  "getGain this = m_gain this"

definition setNumSamples :: "uint \<Rightarrow> uint \<Rightarrow> SpikeChannel \<Rightarrow> SpikeChannel" where
  "setNumSamples preSamples postSamples this =
     this\<lparr> m_numPreSamples := preSamples, m_numPostSamples := postSamples \<rparr>"

definition getPrePeakSamples :: "SpikeChannel \<Rightarrow> uint" where
  "getPrePeakSamples this = m_numPreSamples this"

definition getPostPeakSamples :: "SpikeChannel \<Rightarrow> uint" where
  "getPostPeakSamples this = m_numPostSamples this"

definition getTotalSamples :: "SpikeChannel \<Rightarrow> uint" where
  "getTotalSamples this = m_numPostSamples this + m_numPreSamples this"

definition SpikeChannel_getNumChannels :: "SpikeChannel \<Rightarrow> uint" where
  "SpikeChannel_getNumChannels this = getNumChannels (SpikeChannel.m_type this)"

section \<open>Events\<close>

subsection \<open>The classes of Events.h\<close>

text \<open>
  The classes are those that \<open>Events.h\<close> declares, with the members it declares. The
  \<open>MetaDataEvent\<close> base class is declared outside these files and is left out. A
  \<open>HeapBlock<char>\<close> is the list of its bytes. A \<open>float\<close> of an event is its 32-bit
  pattern: serialization copies the bytes of a \<open>float\<close>, and two events are equal
  when the patterns are. The channel that \<open>m_channelInfo\<close> points to is part of the
  event.
\<close>

type_synonym byte = "8 word"
type_synonym float32 = "32 word"

datatype EventType = SYSYEM_EVENT | PROCESSOR_EVENT | SPIKE_EVENT

record EventBase =
  m_baseType :: EventType
  m_timestamp :: uint64

record Event =
  eventBase :: EventBase
  m_channel :: uint16
  m_channelInfo :: EventChannel
  m_eventType :: EventChannelTypes

record TTLEvent =
  event :: Event
  m_data :: "byte list"

record TextEvent =
  event :: Event
  m_text :: string

record BinaryEvent =
  event :: Event
  m_data :: "byte list"

record SpikeEvent =
  eventBase :: EventBase
  m_threshold :: float32
  m_data :: "float32 list"

text \<open>
  What an \<open>EventBase*\<close> points to is an object of one of the four concrete classes, and
  the channel an event is serialized and deserialized with is an \<open>EventChannel\<close> or a
  \<open>SpikeChannel\<close>.
\<close>

datatype EventObject =
  TTL_Event TTLEvent | Text_Event TextEvent | Binary_Event BinaryEvent | Spike_Event SpikeEvent

datatype ChannelInfo = Event_Channel EventChannel | Spike_Channel SpikeChannel

subsection \<open>The packet\<close>

text \<open>
  Modelled from the spec: the bodies of \<open>serialize\<close>, \<open>serializeHeader\<close> and
  \<open>deserializeFromMessage\<close> are outside these files; everything from here to the end
  of this section follows sections 4.3, 4.4 and 7 of the spec. The spec leaves the byte
  order to the implementation and asks for one order on both sides: integers are written
  with the least significant byte first.
\<close>

text \<open>
  Modelled from the spec: the two recoverable errors of the codec, a codec error
  (capacity too small, message truncated or malformed) and a schema mismatch (the
  message disagrees with the descriptor).
\<close>

datatype error = CodecError | SchemaMismatch

primrec bytes_of :: "nat \<Rightarrow> 'a::len word \<Rightarrow> byte list" where
  "bytes_of 0 w = []"
| "bytes_of (Suc n) w = ucast w # bytes_of n (drop_bit 8 w)"

primrec word_of_bytes :: "byte list \<Rightarrow> 'a::len word" where
  "word_of_bytes [] = 0"
| "word_of_bytes (b # bs) = ucast b OR push_bit 8 (word_of_bytes bs)"

text \<open>
  Modelled from the spec: the first byte of a packet is 0 for a system event, 1 for a
  processor event and 2 for a spike event (these are also the values of the enumerators
  of \<open>EventType\<close> in \<open>Events.h\<close>).
\<close>

fun EventType_code :: "EventType \<Rightarrow> byte" where
  "EventType_code SYSYEM_EVENT = 0"
| "EventType_code PROCESSOR_EVENT = 1"
| "EventType_code SPIKE_EVENT = 2"

text \<open>
  Modelled from the spec: the second byte of a processor event tells the kind of the
  event channel. The values of the enumerators of \<open>EventChannelTypes\<close> are declared
  outside these files and the spec gives none; a kind is written as its position in the
  spec's enumeration. Decoding needs no more of the values than that they differ.
\<close>

fun EventChannelTypes_code :: "EventChannelTypes \<Rightarrow> byte" where
  "EventChannelTypes_code TTL = 0"
| "EventChannelTypes_code TEXT = 1"
| "EventChannelTypes_code INT8_ARRAY = 2"
| "EventChannelTypes_code UINT8_ARRAY = 3"
| "EventChannelTypes_code INT16_ARRAY = 4"
| "EventChannelTypes_code UINT16_ARRAY = 5"
| "EventChannelTypes_code INT32_ARRAY = 6"
| "EventChannelTypes_code UINT32_ARRAY = 7"
| "EventChannelTypes_code INT64_ARRAY = 8"
| "EventChannelTypes_code UINT64_ARRAY = 9"

definition EventChannelTypes_of_code :: "byte \<Rightarrow> EventChannelTypes option" where
  "EventChannelTypes_of_code b =
     (if b = 0 then Some TTL else if b = 1 then Some TEXT
      else if b = 2 then Some INT8_ARRAY else if b = 3 then Some UINT8_ARRAY
      else if b = 4 then Some INT16_ARRAY else if b = 5 then Some UINT16_ARRAY
      else if b = 6 then Some INT32_ARRAY else if b = 7 then Some UINT32_ARRAY
      else if b = 8 then Some INT64_ARRAY else if b = 9 then Some UINT64_ARRAY
      else None)"

text \<open>
  Modelled from the spec: the second byte of a spike event tells the electrode type, with
  the values the spec gives the three kinds: Single 1, Stereotrode 2, Tetrode 4.
\<close>

fun ElectrodeTypes_code :: "ElectrodeTypes \<Rightarrow> byte" where
  "ElectrodeTypes_code SINGLE = 1"
| "ElectrodeTypes_code STEREOTRODE = 2"
| "ElectrodeTypes_code TETRODE = 4"

text \<open>
  Modelled from the spec: the header of section 4.3. Event type, 1 byte; sub-type, 1
  byte; source processor ID, 2 bytes; source sub-stream, 2 bytes; source event index, 2
  bytes; virtual channel, 2 bytes; timestamp, 8 bytes.
\<close>

definition header :: "EventType \<Rightarrow> byte \<Rightarrow> InfoObjectCommon \<Rightarrow> uint16 \<Rightarrow> uint64 \<Rightarrow> byte list" where
  "header baseType subType info channel timestamp =
     [EventType_code baseType, subType]
     @ bytes_of 2 (getSourceNodeID (sourceProcessorInfo info))
     @ bytes_of 2 (getSubProcessorIdx (sourceProcessorInfo info))
     @ bytes_of 2 (getSourceIndex info)
     @ bytes_of 2 channel
     @ bytes_of 8 timestamp"

record WireHeader =
  h_eventType :: byte
  h_subType :: byte
  h_sourceID :: uint16
  h_subStream :: uint16
  h_sourceIndex :: uint16
  h_channel :: uint16
  h_timestamp :: uint64

text \<open>
  Modelled from the spec: parsing the fixed header. A message shorter than the 18 bytes
  of the header is truncated; what follows the header is the payload.
\<close>

definition parse_header :: "byte list \<Rightarrow> (WireHeader \<times> byte list) option" where
  "parse_header msg =
     (if length msg < 18 then None
      else Some (\<lparr> h_eventType = msg ! 0,
                   h_subType = msg ! 1,
                   h_sourceID = word_of_bytes (take 2 (drop 2 msg)),
                   h_subStream = word_of_bytes (take 2 (drop 4 msg)),
                   h_sourceIndex = word_of_bytes (take 2 (drop 6 msg)),
                   h_channel = word_of_bytes (take 2 (drop 8 msg)),
                   h_timestamp = word_of_bytes (take 8 (drop 10 msg)) \<rparr>,
                 drop 18 msg))"

text \<open>
  Modelled from the spec: the event type, the sub-type and the three source indices of
  the header agree with what the supplied descriptor says.
\<close>

definition header_agrees :: "WireHeader \<Rightarrow> EventType \<Rightarrow> byte \<Rightarrow> InfoObjectCommon \<Rightarrow> bool" where
  "header_agrees h baseType subType info =
     (h_eventType h = EventType_code baseType \<and>
      h_subType h = subType \<and>
      h_sourceID h = getSourceNodeID (sourceProcessorInfo info) \<and>
      h_subStream h = getSubProcessorIdx (sourceProcessorInfo info) \<and>
      h_sourceIndex h = getSourceIndex info)"

subsection \<open>Payloads\<close>

text \<open>
  Modelled from the spec: the payload of a text event is the bytes of the message, then
  the null terminator, then null padding up to the data size of the descriptor. Reading
  the text back stops at the terminator or at the declared length, whichever comes
  first.
\<close>

definition byte_of_char :: "char \<Rightarrow> byte" where
  "byte_of_char c = of_nat (of_char c)"

definition char_of_byte :: "byte \<Rightarrow> char" where
  "char_of_byte b = char_of (unat b)"

definition text_payload :: "string \<Rightarrow> nat \<Rightarrow> byte list" where
  "text_payload text dataSize = map byte_of_char text @ replicate (dataSize - length text) 0"

definition text_of_payload :: "byte list \<Rightarrow> nat \<Rightarrow> string" where
  "text_of_payload payload len = map char_of_byte (takeWhile (\<lambda>b. b \<noteq> 0) (take len payload))"

text \<open>
  Modelled from the spec: the payload of a spike event is the 32-bit threshold and then
  the samples, 32 bits each.
\<close>

definition spike_payload :: "float32 \<Rightarrow> float32 list \<Rightarrow> byte list" where
  "spike_payload threshold samples = bytes_of 4 threshold @ concat (map (bytes_of 4) samples)"

fun floats_of_bytes :: "byte list \<Rightarrow> float32 list" where
  "floats_of_bytes (a # b # c # d # rest) = word_of_bytes [a, b, c, d] # floats_of_bytes rest"
| "floats_of_bytes _ = []"

text \<open>
  Modelled from the spec: the number of samples of a spike event is the channel count of
  the electrode times the sum of the samples before and after the peak.
\<close>

definition spike_samples :: "SpikeChannel \<Rightarrow> nat" where
  "spike_samples channelInfo =
     unat (SpikeChannel_getNumChannels channelInfo) * unat (getTotalSamples channelInfo)"

definition is_array_type :: "EventChannelTypes \<Rightarrow> bool" where
  "is_array_type t = (t \<noteq> TTL \<and> t \<noteq> TEXT)"

subsection \<open>Events built against a channel\<close>

text \<open>
  Modelled from the spec: what the construction of an event against a channel descriptor
  guarantees. The event is of the kind the channel declares and refers to the channel. A
  TTL event holds exactly \<open>dataSize\<close> bytes and its virtual channel is one of the lines
  of the channel. A text has no null character, is not longer than the declared length
  and leaves room for the terminator. A binary event holds exactly \<open>dataSize\<close> bytes
  of a channel of an array type. A spike event holds the channel count times the total
  number of samples.
\<close>

definition Event_built_against :: "Event \<Rightarrow> EventChannel \<Rightarrow> bool" where
  "Event_built_against e channelInfo =
     (m_baseType (Event.eventBase e) = PROCESSOR_EVENT \<and>
      m_channelInfo e = channelInfo \<and>
      m_eventType e = EventChannel.m_type channelInfo)"

fun built_against :: "EventObject \<Rightarrow> ChannelInfo \<Rightarrow> bool" where
  "built_against (TTL_Event e) (Event_Channel channelInfo) =
     (Event_built_against (TTLEvent.event e) channelInfo \<and>
      EventChannel.m_type channelInfo = TTL \<and>
      ucast (m_channel (TTLEvent.event e)) < m_numChannels channelInfo \<and>
      length (TTLEvent.m_data e) = unat (m_dataSize channelInfo))"
| "built_against (Text_Event e) (Event_Channel channelInfo) =
     (Event_built_against (TextEvent.event e) channelInfo \<and>
      EventChannel.m_type channelInfo = TEXT \<and>
      0 \<notin> set (map byte_of_char (m_text e)) \<and>
      length (m_text e) \<le> unat (m_length channelInfo) \<and>
      length (m_text e) < unat (m_dataSize channelInfo))"
| "built_against (Binary_Event e) (Event_Channel channelInfo) =
     (Event_built_against (BinaryEvent.event e) channelInfo \<and>
      is_array_type (EventChannel.m_type channelInfo) \<and>
      length (BinaryEvent.m_data e) = unat (m_dataSize channelInfo))"
| "built_against (Spike_Event e) (Spike_Channel channelInfo) =
     (m_baseType (SpikeEvent.eventBase e) = SPIKE_EVENT \<and>
      length (SpikeEvent.m_data e) = spike_samples channelInfo)"
| "built_against _ _ = False"

subsection \<open>serialize\<close>

text \<open>
  Modelled from the spec: the packet of an event is the header followed by the payload.
  The sub-type of a processor event is the kind of its channel, the sub-type of a spike
  event is the electrode type. A spike event has no virtual channel; its header carries
  0 there.
\<close>

definition Event_header :: "Event \<Rightarrow> byte list" where
  "Event_header e =
     header (m_baseType (Event.eventBase e)) (EventChannelTypes_code (m_eventType e))
       (EventChannel.infoObjectCommon (m_channelInfo e)) (m_channel e)
       (m_timestamp (Event.eventBase e))"

fun packet :: "EventObject \<Rightarrow> ChannelInfo \<Rightarrow> byte list" where
  "packet (TTL_Event e) (Event_Channel channelInfo) =
     Event_header (TTLEvent.event e) @ TTLEvent.m_data e"
| "packet (Text_Event e) (Event_Channel channelInfo) =
     Event_header (TextEvent.event e) @ text_payload (m_text e) (unat (m_dataSize channelInfo))"
| "packet (Binary_Event e) (Event_Channel channelInfo) =
     Event_header (BinaryEvent.event e) @ BinaryEvent.m_data e"
| "packet (Spike_Event e) (Spike_Channel channelInfo) =
     header (m_baseType (SpikeEvent.eventBase e))
       (ElectrodeTypes_code (SpikeChannel.m_type channelInfo))
       (SpikeChannel.infoObjectCommon channelInfo) 0 (m_timestamp (SpikeEvent.eventBase e))
     @ spike_payload (m_threshold e) (SpikeEvent.m_data e)"
| "packet _ _ = []"

text \<open>
  Modelled from the spec: \<open>serialize(buffer, capacity)\<close> fails with a codec error when
  the event does not match the descriptor or when the capacity is less than the size of
  the packet; otherwise the packet is what it writes.
\<close>

definition serialize :: "EventObject \<Rightarrow> ChannelInfo \<Rightarrow> size_t \<Rightarrow> error + byte list" where
  "serialize ev channelInfo dstSize =
     (if \<not> built_against ev channelInfo then Inl CodecError
      else if unat dstSize < length (packet ev channelInfo) then Inl CodecError
      else Inr (packet ev channelInfo))"

subsection \<open>deserializeFromMessage\<close>

text \<open>
  Modelled from the spec: each decoder parses the header, checks it against the supplied
  descriptor (event type, sub-type and source indices; for a TTL event also that the
  virtual channel is a line of the channel), checks that the payload has the size the
  descriptor implies, and only then returns an event. A truncated or malformed message
  is a codec error, a disagreement with the descriptor is a schema mismatch, and no
  partial event is returned.
\<close>

definition Event_of_header :: "WireHeader \<Rightarrow> EventChannel \<Rightarrow> Event" where
  "Event_of_header h channelInfo =
     \<lparr> Event.eventBase = \<lparr> m_baseType = PROCESSOR_EVENT, m_timestamp = h_timestamp h \<rparr>,
       m_channel = h_channel h,
       m_channelInfo = channelInfo,
       m_eventType = EventChannel.m_type channelInfo \<rparr>"

definition TTLEvent_deserializeFromMessage :: "byte list \<Rightarrow> EventChannel \<Rightarrow> error + TTLEvent" where
  "TTLEvent_deserializeFromMessage msg channelInfo =
     (case parse_header msg of
        None \<Rightarrow> Inl CodecError
      | Some (h, payload) \<Rightarrow>
          if EventChannel.m_type channelInfo \<noteq> TTL
             \<or> \<not> header_agrees h PROCESSOR_EVENT (EventChannelTypes_code TTL)
                    (EventChannel.infoObjectCommon channelInfo)
             \<or> \<not> ucast (h_channel h) < m_numChannels channelInfo
          then Inl SchemaMismatch
          else if length payload \<noteq> unat (m_dataSize channelInfo) then Inl CodecError
          else Inr \<lparr> TTLEvent.event = Event_of_header h channelInfo,
                     TTLEvent.m_data = payload \<rparr>)"

definition TextEvent_deserializeFromMessage :: "byte list \<Rightarrow> EventChannel \<Rightarrow> error + TextEvent" where
  "TextEvent_deserializeFromMessage msg channelInfo =
     (case parse_header msg of
        None \<Rightarrow> Inl CodecError
      | Some (h, payload) \<Rightarrow>
          if EventChannel.m_type channelInfo \<noteq> TEXT
             \<or> \<not> header_agrees h PROCESSOR_EVENT (EventChannelTypes_code TEXT)
                    (EventChannel.infoObjectCommon channelInfo)
          then Inl SchemaMismatch
          else if length payload \<noteq> unat (m_dataSize channelInfo) then Inl CodecError
          else Inr \<lparr> TextEvent.event = Event_of_header h channelInfo,
                     m_text = text_of_payload payload (unat (m_length channelInfo)) \<rparr>)"

definition BinaryEvent_deserializeFromMessage :: "byte list \<Rightarrow> EventChannel \<Rightarrow> error + BinaryEvent" where
  "BinaryEvent_deserializeFromMessage msg channelInfo =
     (case parse_header msg of
        None \<Rightarrow> Inl CodecError
      | Some (h, payload) \<Rightarrow>
          if \<not> is_array_type (EventChannel.m_type channelInfo)
             \<or> \<not> header_agrees h PROCESSOR_EVENT
                    (EventChannelTypes_code (EventChannel.m_type channelInfo))
                    (EventChannel.infoObjectCommon channelInfo)
          then Inl SchemaMismatch
          else if length payload \<noteq> unat (m_dataSize channelInfo) then Inl CodecError
          else Inr \<lparr> BinaryEvent.event = Event_of_header h channelInfo,
                     BinaryEvent.m_data = payload \<rparr>)"

definition SpikeEvent_deserializeFromMessage :: "byte list \<Rightarrow> SpikeChannel \<Rightarrow> error + SpikeEvent" where
  "SpikeEvent_deserializeFromMessage msg channelInfo =
     (case parse_header msg of
        None \<Rightarrow> Inl CodecError
      | Some (h, payload) \<Rightarrow>
          if \<not> header_agrees h SPIKE_EVENT (ElectrodeTypes_code (SpikeChannel.m_type channelInfo))
                 (SpikeChannel.infoObjectCommon channelInfo)
          then Inl SchemaMismatch
          else if length payload \<noteq> 4 + 4 * spike_samples channelInfo then Inl CodecError
          else Inr \<lparr> SpikeEvent.eventBase =
                       \<lparr> m_baseType = SPIKE_EVENT, m_timestamp = h_timestamp h \<rparr>,
                     m_threshold = word_of_bytes (take 4 payload),
                     SpikeEvent.m_data = floats_of_bytes (drop 4 payload) \<rparr>)"

text \<open>
  Modelled from the spec: \<open>Event::deserializeFromMessage\<close> resolves the sub-type of the
  header and dispatches to the decoder of the variant.
\<close>

definition Event_deserializeFromMessage :: "byte list \<Rightarrow> EventChannel \<Rightarrow> error + EventObject" where
  "Event_deserializeFromMessage msg channelInfo =
     (case parse_header msg of
        None \<Rightarrow> Inl CodecError
      | Some (h, payload) \<Rightarrow>
          (case EventChannelTypes_of_code (h_subType h) of
             None \<Rightarrow> Inl CodecError
           | Some TTL \<Rightarrow> map_sum id TTL_Event (TTLEvent_deserializeFromMessage msg channelInfo)
           | Some TEXT \<Rightarrow> map_sum id Text_Event (TextEvent_deserializeFromMessage msg channelInfo)
           | Some _ \<Rightarrow> map_sum id Binary_Event (BinaryEvent_deserializeFromMessage msg channelInfo)))"

text \<open>
  Modelled from the spec: \<open>EventBase::deserializeFromMessage\<close> resolves the event type
  of the header. The descriptor is the one that the lookup in the processor yields. A
  system event is none of the event variants and is not decoded here.
\<close>

definition deserializeFromMessage :: "byte list \<Rightarrow> ChannelInfo \<Rightarrow> error + EventObject" where
  "deserializeFromMessage msg channelInfo =
     (case parse_header msg of
        None \<Rightarrow> Inl CodecError
      | Some (h, payload) \<Rightarrow>
          if h_eventType h = EventType_code PROCESSOR_EVENT then
            (case channelInfo of
               Event_Channel c \<Rightarrow> Event_deserializeFromMessage msg c
             | Spike_Channel c \<Rightarrow> Inl SchemaMismatch)
          else if h_eventType h = EventType_code SPIKE_EVENT then
            (case channelInfo of
               Event_Channel c \<Rightarrow> Inl SchemaMismatch
             | Spike_Channel c \<Rightarrow> map_sum id Spike_Event (SpikeEvent_deserializeFromMessage msg c))
          else Inl CodecError)"

section \<open>Concrete objects\<close>

text \<open>Objects on which the theorems below are instantiated.\<close>

definition processor_100 :: GenericProcessor where
  "processor_100 = \<lparr> nodeId = 100, getNodeId = 100, getName = ''Rhythm FPGA'' \<rparr>"

definition blank_InfoObjectCommon :: InfoObjectCommon where
  "blank_InfoObjectCommon =
     \<lparr> nodeInfoBase = \<lparr> m_nodeID = 0 \<rparr>,
       sourceProcessorInfo =
         \<lparr> m_sourceNodeID = 0, m_sourceSubNodeIndex = 0, m_sourceType = [], m_sourceName = [] \<rparr>,
       namedInfoObject = \<lparr> m_name = [], m_descriptor = [], m_description = [] \<rparr>,
       m_sourceIndex = 0,
       m_sourceTypeIndex = 0,
       m_sampleRate = 30000 \<rparr>"

definition info_100 :: InfoObjectCommon where
  "info_100 = InfoObjectCommon_ctor 3 1 processor_100 0 blank_InfoObjectCommon"

definition EventChannel_of :: "EventChannelTypes \<Rightarrow> EventChannel" where
  "EventChannel_of t =
     \<lparr> EventChannel.infoObjectCommon = info_100, EventChannel.m_type = t,
       m_numChannels = 1, m_length = 1,
       m_dataSize = 1, m_shouldBeRecorded = True \<rparr>"

definition blank_SpikeChannel :: SpikeChannel where
  "blank_SpikeChannel =
     \<lparr> infoObjectCommon = blank_InfoObjectCommon, m_type = SINGLE, m_sourceInfo = [],
       m_gain = 1, m_numPreSamples = 8, m_numPostSamples = 32 \<rparr>"

definition DataChannel_7 :: "unit DataChannel" where
  "DataChannel_7 =
     \<lparr> DataChannel.infoObjectCommon = info_100, metaDataInfoObject = (),
       historyObject = \<lparr> m_historicString = ''Rhythm FPGA'' \<rparr>,
       DataChannel.m_type = HEADSTAGE_CHANNEL, m_bitVolts = 0.195,
       m_isEnabled = False, m_isMonitored = True, m_isRecording = True \<rparr>"

definition TTL_channel_12 :: EventChannel where
  "TTL_channel_12 = setNumChannels 12 (EventChannel_of TTL)"

definition TEXT_channel_10 :: EventChannel where
  "TEXT_channel_10 = setLength 10 (EventChannel_of TEXT)"

definition INT16_channel_3 :: EventChannel where
  "INT16_channel_3 = setLength 3 (EventChannel_of INT16_ARRAY)"

definition stereotrode_channel :: SpikeChannel where
  "stereotrode_channel =
     \<lparr> SpikeChannel.infoObjectCommon = info_100, SpikeChannel.m_type = STEREOTRODE,
       m_sourceInfo = [sourceChannelInfo_of DataChannel_7, sourceChannelInfo_of DataChannel_7],
       m_gain = 1, m_numPreSamples = 1, m_numPostSamples = 1 \<rparr>"

definition Event_on :: "EventChannel \<Rightarrow> uint64 \<Rightarrow> uint16 \<Rightarrow> Event" where
  "Event_on channelInfo timestamp channel =
     \<lparr> Event.eventBase = \<lparr> m_baseType = PROCESSOR_EVENT, m_timestamp = timestamp \<rparr>,
       m_channel = channel, m_channelInfo = channelInfo,
       m_eventType = EventChannel.m_type channelInfo \<rparr>"

definition TTL_zeros :: EventObject where
  "TTL_zeros = TTL_Event \<lparr> TTLEvent.event = Event_on TTL_channel_12 1000 0,
                           TTLEvent.m_data = [0, 0] \<rparr>"

definition TTL_ones :: EventObject where
  "TTL_ones = TTL_Event \<lparr> TTLEvent.event = Event_on TTL_channel_12 18446744073709551615 11,
                          TTLEvent.m_data = [255, 255] \<rparr>"

definition Text_empty :: EventObject where
  "Text_empty = Text_Event \<lparr> TextEvent.event = Event_on TEXT_channel_10 1000 1, m_text = [] \<rparr>"

definition Text_hi :: EventObject where
  "Text_hi = Text_Event \<lparr> TextEvent.event = Event_on TEXT_channel_10 1000 1, m_text = ''hi'' \<rparr>"

definition Text_full :: EventObject where
  "Text_full = Text_Event \<lparr> TextEvent.event = Event_on TEXT_channel_10 1000 1,
                            m_text = ''0123456789'' \<rparr>"

definition Binary_full :: EventObject where
  "Binary_full = Binary_Event \<lparr> BinaryEvent.event = Event_on INT16_channel_3 258 1,
                                BinaryEvent.m_data = [255, 127, 0, 128, 1, 0] \<rparr>"

definition Spike_4 :: EventObject where
  "Spike_4 = Spike_Event \<lparr> SpikeEvent.eventBase =
                             \<lparr> m_baseType = SPIKE_EVENT, m_timestamp = 4660 \<rparr>,
                           m_threshold = 1112014848,
                           SpikeEvent.m_data = [0, 1065353216, 3212836864, 2143289344] \<rparr>"

section \<open>Properties of the channel descriptors\<close>

subsection \<open>Arithmetic of the sizes\<close>

lemma unat_uint_bound: "unat (L :: uint) < 4294967296"
  using unsigned_less [of L, where 'a = nat] by simp

lemma unat_ucast_uint_size_t: "unat (ucast (L :: uint) :: size_t) = unat L"
  using unat_uint_bound [of L] by (simp add: unsigned_ucast_eq take_bit_nat_eq_self)

lemma getTypeByteSize_le_8: "unat (getTypeByteSize t) \<le> 8"
  by (cases t) simp_all

lemma dataSize_product_exact:
  "unat (ucast (L :: uint) * getTypeByteSize t) = unat L * unat (getTypeByteSize t)"
proof -
  have "unat L * unat (getTypeByteSize t) \<le> unat L * 8"
    using getTypeByteSize_le_8 by (rule mult_le_mono2)
  also have "\<dots> < 2 ^ 64"
    using unat_uint_bound [of L] by simp
  finally have "unat (ucast L :: size_t) * unat (getTypeByteSize t) < 2 ^ LENGTH(64)"
    by (simp add: unat_ucast_uint_size_t)
  then show ?thesis
    by (simp add: unat_mult_lem [THEN iffD1] unat_ucast_uint_size_t)
qed

lemma dataSize_text_exact: "unat (ucast (L :: uint) * (1 :: size_t) + 1) = unat L + 1"
proof -
  have "unat (ucast L :: size_t) + unat (1 :: size_t) < 2 ^ LENGTH(64)"
    using unat_uint_bound [of L] by (simp add: unat_ucast_uint_size_t)
  then have "unat (ucast L + (1 :: size_t)) = unat (ucast L :: size_t) + unat (1 :: size_t)"
    by (simp only: unat_add_lem [THEN iffD1])
  then show ?thesis
    by (simp add: unat_ucast_uint_size_t)
qed

lemma bytes_needed_in_range:
  assumes "unat n \<le> 4294967288"
  shows "unat ((n + 7) div 8 :: uint) = nat \<lceil>real (unat n) / 8\<rceil>"
proof -
  have "unat (n + 7) = unat n + 7"
    using assms by (simp add: unat_word_ariths)
  then have "unat ((n + 7) div 8) = (unat n + 7) div 8"
    by (simp add: unat_div)
  moreover have "nat \<lceil>real (unat n) / 8\<rceil> = (unat n + 7) div 8"
    by linarith
  ultimately show ?thesis
    by simp
qed

subsection \<open>setNumChannels\<close>

text \<open>
  What \<open>setNumChannels\<close> does on a channel that is not a TTL channel: only
  \<open>m_numChannels\<close> changes.
\<close>

lemma setNumChannels_not_TTL:
  "EventChannel.m_type c \<noteq> TTL \<Longrightarrow> setNumChannels n c = c\<lparr> m_numChannels := n \<rparr>"
  by (simp add: setNumChannels_def)

text \<open>
  On a TTL channel the length is the number of bytes that hold \<open>n\<close> bits as long as
  \<open>n + 7\<close> does not pass the largest \<open>unsigned int\<close>, that is for \<open>n\<close> up to
  \<open>2\<^sup>3\<^sup>2 - 8\<close>.
\<close>

lemma setNumChannels_TTL_in_range:
  assumes "EventChannel.m_type c = TTL" and "unat n \<le> 4294967288"
  shows "unat (m_length (setNumChannels n c)) = nat \<lceil>real (unat n) / 8\<rceil>"
    and "m_dataSize (setNumChannels n c) = ucast (m_length (setNumChannels n c))"
  using assms by (simp_all add: setNumChannels_def bytes_needed_in_range)

lemma setNumChannels_TTL_examples:
  "m_length (setNumChannels 12 (EventChannel_of TTL)) = 2"
  "m_dataSize (setNumChannels 12 (EventChannel_of TTL)) = 2"
  "m_length (setNumChannels 16 (setNumChannels 12 (EventChannel_of TTL))) = 2"
  "m_dataSize (setNumChannels 16 (setNumChannels 12 (EventChannel_of TTL))) = 2"
  "m_length (setNumChannels 17 (setNumChannels 16 (setNumChannels 12 (EventChannel_of TTL)))) = 3"
  "m_dataSize (setNumChannels 17 (setNumChannels 16 (setNumChannels 12 (EventChannel_of TTL)))) = 3"
  by (simp_all add: setNumChannels_def EventChannel_of_def)

text \<open>
  Claim C1: \<open>setNumChannels(n)\<close> on a TTL channel sets the length to the ceiling of
  \<open>n / 8\<close> and the data size to the length. The sum \<open>numChannels + 7\<close> is an
  \<open>unsigned int\<close> and wraps around: for the largest \<open>unsigned int\<close>, 4294967295
  lines, the code sets the length and the data size to 0, while the ceiling of
  \<open>4294967295 / 8\<close> is 536870912.
\<close>

theorem setNumChannels_TTL_wraps:
  "EventChannel.m_type (EventChannel_of TTL) = TTL \<and>
   m_numChannels (setNumChannels 4294967295 (EventChannel_of TTL)) = 4294967295 \<and>
   m_length (setNumChannels 4294967295 (EventChannel_of TTL)) = 0 \<and>
   m_dataSize (setNumChannels 4294967295 (EventChannel_of TTL)) = 0 \<and>
   nat \<lceil>real (unat (4294967295 :: uint)) / 8\<rceil> = 536870912"
  by (simp add: setNumChannels_def EventChannel_of_def)

subsection \<open>setLength\<close>

text \<open>
  Claim C3: on a channel that is not a TTL channel, \<open>setLength(L)\<close> sets the length to
  \<open>L\<close> and the data size to \<open>L\<close> times the byte size of the element type, plus one
  byte exactly when the channel is a text channel. The product and the sum are taken in
  \<open>size_t\<close> and do not wrap, so the equation is one between numbers.
\<close>

theorem setLength_not_TTL:
  "EventChannel.m_type c \<noteq> TTL \<Longrightarrow>
     m_length (setLength L c) = L \<and>
     unat (m_dataSize (setLength L c)) =
       unat L * unat (getTypeByteSize (EventChannel.m_type c))
         + (if EventChannel.m_type c = TEXT then 1 else 0)"
  using dataSize_text_exact [of L]
  by (simp add: setLength_def Let_def dataSize_product_exact)

theorem setLength_not_TTL_witness:
  "EventChannel.m_type (EventChannel_of TEXT) \<noteq> TTL \<and>
   EventChannel.m_type (EventChannel_of INT16_ARRAY) \<noteq> TTL \<and>
   m_length (setLength 10 (EventChannel_of TEXT)) = 10 \<and>
   unat (m_dataSize (setLength 10 (EventChannel_of TEXT))) = 11 \<and>
   m_length (setLength 4294967295 (EventChannel_of INT16_ARRAY)) = 4294967295 \<and>
   unat (m_dataSize (setLength 4294967295 (EventChannel_of INT16_ARRAY))) = 8589934590"
  using setLength_not_TTL [of "EventChannel_of TEXT" 10]
    setLength_not_TTL [of "EventChannel_of INT16_ARRAY" 4294967295]
  by (simp add: EventChannel_of_def)

text \<open>
  Claim C4: on a TTL channel \<open>setLength(L)\<close> changes nothing: the length, the data size
  and the number of channels are what they were, and so is every other member.
\<close>

theorem setLength_TTL_noop:
  "EventChannel.m_type c = TTL \<Longrightarrow>
     m_length (setLength L c) = m_length c \<and>
     m_dataSize (setLength L c) = m_dataSize c \<and>
     m_numChannels (setLength L c) = m_numChannels c \<and>
     setLength L c = c"
  by (simp add: setLength_def)

theorem setLength_TTL_noop_witness:
  "EventChannel.m_type (setNumChannels 12 (EventChannel_of TTL)) = TTL \<and>
   m_length (setLength 40 (setNumChannels 12 (EventChannel_of TTL))) = 2 \<and>
   m_dataSize (setLength 40 (setNumChannels 12 (EventChannel_of TTL))) = 2 \<and>
   m_numChannels (setLength 40 (setNumChannels 12 (EventChannel_of TTL))) = 12"
  using setLength_TTL_noop [of "setNumChannels 12 (EventChannel_of TTL)" 40]
  by (simp add: EventChannel_of_def setNumChannels_def)

subsection \<open>getTypeByteSize\<close>

text \<open>
  Claim C5: \<open>getTypeByteSize\<close> gives the eight integer array kinds the byte width of
  their element and gives 1 to the kinds that are not arrays, TTL and Text. It is a
  function of its argument alone, defined on every kind.
\<close>

theorem getTypeByteSize_table:
  "getTypeByteSize INT8_ARRAY = 1 \<and> getTypeByteSize UINT8_ARRAY = 1 \<and>
   getTypeByteSize INT16_ARRAY = 2 \<and> getTypeByteSize UINT16_ARRAY = 2 \<and>
   getTypeByteSize INT32_ARRAY = 4 \<and> getTypeByteSize UINT32_ARRAY = 4 \<and>
   getTypeByteSize INT64_ARRAY = 8 \<and> getTypeByteSize UINT64_ARRAY = 8 \<and>
   getTypeByteSize TTL = 1 \<and> getTypeByteSize TEXT = 1"
  by simp

subsection \<open>The SpikeChannel constructor\<close>

lemma length_add_sourceInfo:
  "length (add_sourceInfo sourceChannels infos) = length infos + length sourceChannels"
  by (induction sourceChannels arbitrary: infos) simp_all

text \<open>
  Whatever the number of source channels is, the constructor builds the object: it has
  the electrode type it was given and one more entry in \<open>m_sourceInfo\<close> for each source
  channel.
\<close>

lemma SpikeChannel_ctor_builds:
  "SpikeChannel_getChannelType
     (SpikeChannel_ctor type idx typeidx source sourceChannels subproc this) = type"
  "length (getSourceChannelInfo
     (SpikeChannel_ctor type idx typeidx source sourceChannels subproc this))
     = length (m_sourceInfo this) + length sourceChannels"
  by (simp_all add: SpikeChannel_ctor_def Let_def SpikeChannel_getChannelType_def
        getSourceChannelInfo_def length_add_sourceInfo)

text \<open>
  Claim C6: the number of channels of an electrode type is 1 for Single, 2 for
  Stereotrode and 4 for Tetrode, and the construction of a SpikeChannel from a list of
  source channels of any other length is to fail. The counts are as claimed. The
  construction does not fail: for each of the three types, with a list whose length is
  not the count of the type, the condition of the assertion is false and the constructor
  still builds the object, of that type and with as many source entries as the list has:
  a Single with 2, a Stereotrode with 1 and a Tetrode with none.
\<close>

theorem SpikeChannel_ctor_builds_on_mismatch:
  "getNumChannels SINGLE = 1 \<and> getNumChannels STEREOTRODE = 2 \<and> getNumChannels TETRODE = 4 \<and>
   \<not> SpikeChannel_ctor_jassert SINGLE [DataChannel_7, DataChannel_7] \<and>
   SpikeChannel_getChannelType
     (SpikeChannel_ctor SINGLE 0 0 processor_100 [DataChannel_7, DataChannel_7] 0
        blank_SpikeChannel) = SINGLE \<and>
   length (getSourceChannelInfo
     (SpikeChannel_ctor SINGLE 0 0 processor_100 [DataChannel_7, DataChannel_7] 0
        blank_SpikeChannel)) = 2 \<and>
   \<not> SpikeChannel_ctor_jassert STEREOTRODE [DataChannel_7] \<and>
   SpikeChannel_getChannelType
     (SpikeChannel_ctor STEREOTRODE 0 0 processor_100 [DataChannel_7] 0
        blank_SpikeChannel) = STEREOTRODE \<and>
   length (getSourceChannelInfo
     (SpikeChannel_ctor STEREOTRODE 0 0 processor_100 [DataChannel_7] 0
        blank_SpikeChannel)) = 1 \<and>
   \<not> SpikeChannel_ctor_jassert TETRODE ([] :: unit DataChannel list) \<and>
   SpikeChannel_getChannelType
     (SpikeChannel_ctor TETRODE 0 0 processor_100 ([] :: unit DataChannel list) 0
        blank_SpikeChannel) = TETRODE \<and>
   length (getSourceChannelInfo
     (SpikeChannel_ctor TETRODE 0 0 processor_100 ([] :: unit DataChannel list) 0
        blank_SpikeChannel)) = 0"
  by (simp add: SpikeChannel_ctor_def SpikeChannel_ctor_jassert_def Let_def
        SpikeChannel_getChannelType_def getSourceChannelInfo_def blank_SpikeChannel_def)

subsection \<open>Copying and resetting a DataChannel\<close>

text \<open>
  Claim C7: the copy of a DataChannel is enabled, not monitored and not recording,
  whatever the three flags of the channel it is copied from are.
\<close>

theorem DataChannel_copy_flags:
  "isEnabled (DataChannel_copy ch) \<and>
   \<not> isMonitored (DataChannel_copy ch) \<and>
   \<not> getRecordState (DataChannel_copy ch)"
  by (simp add: DataChannel_copy_def isEnabled_def isMonitored_def getRecordState_def)

text \<open>
  Claim C8: after \<open>reset()\<close> a DataChannel has \<open>bitVolts\<close> 1.0, sample rate 44100, is
  enabled, is not monitored and is not recording, whatever its state was.
\<close>

theorem reset_defaults:
  "getBitVolts (reset ch) = 1 \<and>
   getSampleRate (DataChannel.infoObjectCommon (reset ch)) = 44100 \<and>
   isEnabled (reset ch) \<and>
   \<not> isMonitored (reset ch) \<and>
   \<not> getRecordState (reset ch)"
  by (simp add: reset_def Let_def setSampleRate_def getBitVolts_def getSampleRate_def
        isEnabled_def isMonitored_def getRecordState_def)

text \<open>
  Claim C10: the copy of a DataChannel differs from the original in the three flags at
  most. The channel type, \<open>bitVolts\<close>, the source index and the type index, the node
  identity, the four members that record the source processor, and the base-class
  subobjects as wholes are those of the original.
\<close>

theorem DataChannel_copy_frame:
  "DataChannel_getChannelType (DataChannel_copy ch) = DataChannel_getChannelType ch \<and>
   getBitVolts (DataChannel_copy ch) = getBitVolts ch \<and>
   getSourceIndex (DataChannel.infoObjectCommon (DataChannel_copy ch))
     = getSourceIndex (DataChannel.infoObjectCommon ch) \<and>
   getSourceTypeIndex (DataChannel.infoObjectCommon (DataChannel_copy ch))
     = getSourceTypeIndex (DataChannel.infoObjectCommon ch) \<and>
   getCurrentNodeID (nodeInfoBase (DataChannel.infoObjectCommon (DataChannel_copy ch)))
     = getCurrentNodeID (nodeInfoBase (DataChannel.infoObjectCommon ch)) \<and>
   sourceProcessorInfo (DataChannel.infoObjectCommon (DataChannel_copy ch))
     = sourceProcessorInfo (DataChannel.infoObjectCommon ch) \<and>
   DataChannel.infoObjectCommon (DataChannel_copy ch) = DataChannel.infoObjectCommon ch \<and>
   metaDataInfoObject (DataChannel_copy ch) = metaDataInfoObject ch \<and>
   historyObject (DataChannel_copy ch) = historyObject ch \<and>
   DataChannel_copy ch
     = ch\<lparr> m_isEnabled := True, m_isMonitored := False, m_isRecording := False \<rparr>"
  by (simp add: DataChannel_copy_def DataChannel_getChannelType_def getBitVolts_def)

subsection \<open>The historic string\<close>

text \<open>
  Claim C9: adding the entry \<open>E\<close> to a history object makes its historic string the
  former string, the separator \<open>" -> "\<close> and \<open>E\<close> when the former string is not
  empty, and \<open>E\<close> alone when it is empty. The former string is a prefix of the new one,
  so the string never gets shorter.
\<close>

theorem addToHistoricString_appends:
  "getHistoricString (addToHistoricString E h) =
     (if getHistoricString h = [] then E else getHistoricString h @ '' -> '' @ E) \<and>
   prefix (getHistoricString h) (getHistoricString (addToHistoricString E h)) \<and>
   length (getHistoricString h) \<le> length (getHistoricString (addToHistoricString E h))"
  by (simp add: addToHistoricString_def getHistoricString_def)

section \<open>Properties of the event packets\<close>

subsection \<open>Bytes and words\<close>

lemma length_bytes_of [simp]: "length (bytes_of n w) = n"
  by (induction n arbitrary: w) simp_all

lemma word_of_bytes_bytes_of:
  "(word_of_bytes (bytes_of n w) :: 'a::len word) = take_bit (8 * n) w"
proof (induction n arbitrary: w)
  case 0
  show ?case by simp
next
  case (Suc n)
  show ?case
    unfolding bytes_of.simps word_of_bytes.simps Suc
    by (rule bit_word_eqI) (auto simp add: bit_simps)
qed

lemma word_of_bytes_2: "word_of_bytes (bytes_of 2 (w :: uint16)) = w"
  by (simp add: word_of_bytes_bytes_of take_bit_word_eq_self)

lemma word_of_bytes_4: "word_of_bytes (bytes_of 4 (w :: float32)) = w"
  by (simp add: word_of_bytes_bytes_of take_bit_word_eq_self)

lemma word_of_bytes_8: "word_of_bytes (bytes_of 8 (w :: uint64)) = w"
  by (simp add: word_of_bytes_bytes_of take_bit_word_eq_self)

lemma char_of_byte_of_char [simp]: "char_of_byte (byte_of_char c) = c"
proof -
  have "(of_char c :: nat) < 256"
    by simp
  then show ?thesis
    by (simp add: char_of_byte_def byte_of_char_def unat_of_nat)
qed

subsection \<open>Header and payloads\<close>

lemma length_header [simp]: "length (header bt st info ch ts) = 18"
  by (simp add: header_def)

lemma parse_header_header:
  "parse_header (header bt st info ch ts @ payload) =
     Some (\<lparr> h_eventType = EventType_code bt, h_subType = st,
              h_sourceID = getSourceNodeID (sourceProcessorInfo info),
              h_subStream = getSubProcessorIdx (sourceProcessorInfo info),
              h_sourceIndex = getSourceIndex info,
              h_channel = ch, h_timestamp = ts \<rparr>, payload)"
  by (simp add: parse_header_def header_def word_of_bytes_2 word_of_bytes_8)

lemma text_of_payload_text_payload:
  assumes "0 \<notin> set (map byte_of_char text)" and "length text \<le> len"
  shows "text_of_payload (text_payload text n) len = text"
proof -
  let ?bs = "map byte_of_char text"
  have "take len (?bs @ replicate (n - length text) 0)
          = ?bs @ replicate (min (len - length text) (n - length text)) 0"
    using assms(2) by simp
  moreover have "takeWhile (\<lambda>b. b \<noteq> 0) (?bs @ replicate k 0) = ?bs" for k
  proof -
    have "\<And>x. x \<in> set ?bs \<Longrightarrow> x \<noteq> 0"
      using assms(1) by metis
    then have "takeWhile (\<lambda>b. b \<noteq> 0) (?bs @ replicate k 0)
                 = ?bs @ takeWhile (\<lambda>b. b \<noteq> 0) (replicate k 0)"
      by (rule takeWhile_append2)
    then show ?thesis
      by (cases k) simp_all
  qed
  ultimately show ?thesis
    by (simp add: text_of_payload_def text_payload_def comp_def)
qed

lemma bytes_of_4_unfold:
  "bytes_of 4 w = [ucast w, ucast (drop_bit 8 w), ucast (drop_bit 16 w), ucast (drop_bit 24 w)]"
  by (simp add: numeral_eq_Suc drop_bit_drop_bit)

lemma floats_of_bytes_concat: "floats_of_bytes (concat (map (bytes_of 4) xs)) = xs"
proof (induction xs)
  case Nil
  show ?case by simp
next
  case (Cons x xs)
  have "word_of_bytes (bytes_of 4 x) = x"
    by (rule word_of_bytes_4)
  then show ?case
    using Cons by (simp add: bytes_of_4_unfold)
qed

lemma length_spike_payload [simp]: "length (spike_payload t xs) = 4 + 4 * length xs"
  by (induction xs) (simp_all add: spike_payload_def)

lemma Event_of_header_built:
  assumes "Event_built_against e c"
  shows "Event_of_header
           \<lparr> h_eventType = a, h_subType = b, h_sourceID = p, h_subStream = q, h_sourceIndex = r,
             h_channel = m_channel e, h_timestamp = m_timestamp (Event.eventBase e) \<rparr> c = e"
  using assms by (simp add: Event_of_header_def Event_built_against_def)

subsection \<open>The four variants\<close>

lemma TTL_roundtrip:
  assumes "built_against (TTL_Event e) (Event_Channel c)"
  shows "deserializeFromMessage (packet (TTL_Event e) (Event_Channel c)) (Event_Channel c)
           = Inr (TTL_Event e)"
proof -
  from assms have b: "Event_built_against (TTLEvent.event e) c"
    by simp
  from assms b show ?thesis
    by (simp add: deserializeFromMessage_def Event_deserializeFromMessage_def
          TTLEvent_deserializeFromMessage_def Event_header_def parse_header_header
          header_agrees_def Event_of_header_built [OF b] EventChannelTypes_of_code_def
          Event_built_against_def)
qed

lemma Text_roundtrip:
  assumes "built_against (Text_Event e) (Event_Channel c)"
  shows "deserializeFromMessage (packet (Text_Event e) (Event_Channel c)) (Event_Channel c)
           = Inr (Text_Event e)"
proof -
  from assms have b: "Event_built_against (TextEvent.event e) c"
    by simp
  from assms have t: "text_of_payload (text_payload (m_text e) (unat (m_dataSize c)))
                        (unat (m_length c)) = m_text e"
    by (intro text_of_payload_text_payload) simp_all
  from assms have l: "length (text_payload (m_text e) (unat (m_dataSize c))) = unat (m_dataSize c)"
    by (simp add: text_payload_def)
  from assms b show ?thesis
    by (simp add: deserializeFromMessage_def Event_deserializeFromMessage_def
          TextEvent_deserializeFromMessage_def Event_header_def parse_header_header
          header_agrees_def Event_of_header_built [OF b] EventChannelTypes_of_code_def t l
          Event_built_against_def)
qed

lemma Binary_roundtrip:
  assumes "built_against (Binary_Event e) (Event_Channel c)"
  shows "deserializeFromMessage (packet (Binary_Event e) (Event_Channel c)) (Event_Channel c)
           = Inr (Binary_Event e)"
proof -
  from assms have b: "Event_built_against (BinaryEvent.event e) c"
    by simp
  from assms b show ?thesis
    by (cases "EventChannel.m_type c")
      (simp_all add: deserializeFromMessage_def Event_deserializeFromMessage_def
          BinaryEvent_deserializeFromMessage_def Event_header_def parse_header_header
          header_agrees_def Event_of_header_built [OF b] EventChannelTypes_of_code_def
          is_array_type_def Event_built_against_def)
qed

lemma Spike_roundtrip:
  assumes "built_against (Spike_Event e) (Spike_Channel c)"
  shows "deserializeFromMessage (packet (Spike_Event e) (Spike_Channel c)) (Spike_Channel c)
           = Inr (Spike_Event e)"
proof -
  have t: "word_of_bytes (take 4 (spike_payload (m_threshold e) (SpikeEvent.m_data e)))
             = m_threshold e"
    by (simp add: spike_payload_def word_of_bytes_4)
  have d: "floats_of_bytes (drop 4 (spike_payload (m_threshold e) (SpikeEvent.m_data e)))
             = SpikeEvent.m_data e"
    by (simp add: spike_payload_def floats_of_bytes_concat)
  from assms show ?thesis
    by (simp add: deserializeFromMessage_def SpikeEvent_deserializeFromMessage_def
          parse_header_header header_agrees_def t d)
qed

lemma packet_roundtrip:
  "built_against ev channelInfo \<Longrightarrow>
     deserializeFromMessage (packet ev channelInfo) channelInfo = Inr ev"
  by (induction ev channelInfo rule: built_against.induct)
    (erule TTL_roundtrip Text_roundtrip Binary_roundtrip Spike_roundtrip | simp)+

text \<open>
  The example of the spec: a text event with the text \<open>hi\<close> on a text channel of length
  10 has a payload of 11 bytes.
\<close>

lemma text_hi_payload_11:
  "length (text_payload ''hi'' (unat (getDataSize TEXT_channel_10))) = 11"
  by code_simp

subsection \<open>Round trip\<close>

text \<open>
  Claim C2: for an event of any of the four variants (TTL, text, binary, spike) that is
  built against a channel descriptor, the message that \<open>serialize\<close> produces with that
  descriptor is deserialized with the same descriptor to an event equal to the original
  in every field; and \<open>serialize\<close> does produce a message when the capacity of the
  buffer is at least the size of the packet. The statement is about every payload the
  descriptor admits, among them the empty text, the text and the array of the full
  declared length, and the TTL words of all zeros and of all ones.
\<close>

theorem serialize_deserialize_roundtrip:
  assumes "built_against ev channelInfo"
  shows "(serialize ev channelInfo dstSize = Inr msg \<longrightarrow>
            deserializeFromMessage msg channelInfo = Inr ev) \<and>
         (length (packet ev channelInfo) \<le> unat dstSize \<longrightarrow>
            (\<exists>m. serialize ev channelInfo dstSize = Inr m \<and>
                 deserializeFromMessage m channelInfo = Inr ev))"
  using assms packet_roundtrip [OF assms]
  by (auto simp add: serialize_def split: if_splits)

theorem serialize_deserialize_roundtrip_witness:
  "built_against TTL_zeros (Event_Channel TTL_channel_12) \<and>
   (\<exists>m. serialize TTL_zeros (Event_Channel TTL_channel_12) 64 = Inr m \<and>
        deserializeFromMessage m (Event_Channel TTL_channel_12) = Inr TTL_zeros) \<and>
   built_against TTL_ones (Event_Channel TTL_channel_12) \<and>
   (\<exists>m. serialize TTL_ones (Event_Channel TTL_channel_12) 64 = Inr m \<and>
        deserializeFromMessage m (Event_Channel TTL_channel_12) = Inr TTL_ones) \<and>
   built_against Text_empty (Event_Channel TEXT_channel_10) \<and>
   (\<exists>m. serialize Text_empty (Event_Channel TEXT_channel_10) 64 = Inr m \<and>
        deserializeFromMessage m (Event_Channel TEXT_channel_10) = Inr Text_empty) \<and>
   built_against Text_full (Event_Channel TEXT_channel_10) \<and>
   (\<exists>m. serialize Text_full (Event_Channel TEXT_channel_10) 64 = Inr m \<and>
        deserializeFromMessage m (Event_Channel TEXT_channel_10) = Inr Text_full) \<and>
   built_against Binary_full (Event_Channel INT16_channel_3) \<and>
   (\<exists>m. serialize Binary_full (Event_Channel INT16_channel_3) 64 = Inr m \<and>
        deserializeFromMessage m (Event_Channel INT16_channel_3) = Inr Binary_full) \<and>
   built_against Spike_4 (Spike_Channel stereotrode_channel) \<and>
   (\<exists>m. serialize Spike_4 (Spike_Channel stereotrode_channel) 64 = Inr m \<and>
        deserializeFromMessage m (Spike_Channel stereotrode_channel) = Inr Spike_4)"
proof -
  have b1: "built_against TTL_zeros (Event_Channel TTL_channel_12)"
    by code_simp
  have l1: "length (packet TTL_zeros (Event_Channel TTL_channel_12)) \<le> unat (64 :: size_t)"
    by code_simp
  have b2: "built_against TTL_ones (Event_Channel TTL_channel_12)"
    by code_simp
  have l2: "length (packet TTL_ones (Event_Channel TTL_channel_12)) \<le> unat (64 :: size_t)"
    by code_simp
  have b3: "built_against Text_empty (Event_Channel TEXT_channel_10)"
    by code_simp
  have l3: "length (packet Text_empty (Event_Channel TEXT_channel_10)) \<le> unat (64 :: size_t)"
    by code_simp
  have b4: "built_against Text_full (Event_Channel TEXT_channel_10)"
    by code_simp
  have l4: "length (packet Text_full (Event_Channel TEXT_channel_10)) \<le> unat (64 :: size_t)"
    by code_simp
  have b5: "built_against Binary_full (Event_Channel INT16_channel_3)"
    by code_simp
  have l5: "length (packet Binary_full (Event_Channel INT16_channel_3)) \<le> unat (64 :: size_t)"
    by code_simp
  have b6: "built_against Spike_4 (Spike_Channel stereotrode_channel)"
    by code_simp
  have l6: "length (packet Spike_4 (Spike_Channel stereotrode_channel)) \<le> unat (64 :: size_t)"
    by code_simp
  show ?thesis
    using b1 b2 b3 b4 b5 b6
      serialize_deserialize_roundtrip [OF b1, of 64, THEN conjunct2, rule_format, OF l1]
      serialize_deserialize_roundtrip [OF b2, of 64, THEN conjunct2, rule_format, OF l2]
      serialize_deserialize_roundtrip [OF b3, of 64, THEN conjunct2, rule_format, OF l3]
      serialize_deserialize_roundtrip [OF b4, of 64, THEN conjunct2, rule_format, OF l4]
      serialize_deserialize_roundtrip [OF b5, of 64, THEN conjunct2, rule_format, OF l5]
      serialize_deserialize_roundtrip [OF b6, of 64, THEN conjunct2, rule_format, OF l6]
    by (intro conjI)
qed

end
